theory Spec2Isabelle
  imports Complex_Main
begin

section \<open>Numbers and vectors\<close>

text \<open>
  The scene of \<^verbatim>\<open>src/main.js\<close> is computed with JavaScript numbers and, on the GPU, with
  GLSL floats. Both are modelled by the real numbers: \<open>Math.PI\<close> is \<open>pi\<close>,
  \<open>Math.sin\<close>, \<open>Math.cos\<close> and \<open>Math.acos\<close> are \<open>sin\<close>, \<open>cos\<close> and \<open>arccos\<close>,
  \<open>Math.min\<close> is \<open>min\<close>. The rounding of double arithmetic and its infinities are
  outside this model. Inside it are the store into a \<open>Float32Array\<close> cell, which narrows
  a number to binary32, and, for the angles that \<open>animate\<close> integrates, the value NaN.
\<close>

type_synonym vec3 = "real \<times> real \<times> real"

definition dot :: "vec3 \<Rightarrow> vec3 \<Rightarrow> real" where
  "dot a b = (case a of (ax, ay, az) \<Rightarrow> case b of (bx, by, bz) \<Rightarrow> ax * bx + ay * by + az * bz)"

definition vlength :: "vec3 \<Rightarrow> real" where
  "vlength v = sqrt (dot v v)"

definition normalize_vec :: "vec3 \<Rightarrow> vec3" where
  \<comment> \<open>\<open>Vector3.normalize\<close> of three.js: \<open>divideScalar(this.length() || 1)\<close>.\<close>
  "normalize_vec v =
     (case v of (x, y, z) \<Rightarrow>
        let l = (if vlength v = 0 then 1 else vlength v) in (x / l, y / l, z / l))"

section \<open>The UTC clock\<close>

text \<open>
  A \<open>Date\<close> is its time value: the integer number of milliseconds since the epoch.
  \<open>new Date()\<close> never yields an invalid date. The UTC getters are those of ECMAScript:
  \<open>HourFromTime(t) = floor(t / msPerHour) modulo 24\<close> and so on, where \<open>modulo\<close> has the
  sign of the divisor, as \<open>div\<close> and \<open>mod\<close> on \<open>int\<close> have.
\<close>

type_synonym date = int

definition getUTCHours :: "date \<Rightarrow> int" where
  "getUTCHours t = (t div 3600000) mod 24"

definition getUTCMinutes :: "date \<Rightarrow> int" where
  "getUTCMinutes t = (t div 60000) mod 60"

definition getUTCSeconds :: "date \<Rightarrow> int" where
  "getUTCSeconds t = (t div 1000) mod 60"

definition getUTCMilliseconds :: "date \<Rightarrow> int" where
  "getUTCMilliseconds t = t mod 1000"

section \<open>The scene\<close>

text \<open>
  Of every object of the scene the record keeps what \<open>animate\<close> reads or writes: the
  \<open>rotation.y\<close> of the meshes and groups, the \<open>sunDirection\<close> uniform of the night-lights
  material, the position of the sun light, and the module variable \<open>previousTime\<close>.
  A satellite is its orbit group: \<open>rotation.y\<close>, \<open>userData.speed\<close> and
  \<open>userData.satGroup\<close> (the \<open>rotation.y\<close> of the body group, when the field is set).
\<close>

record satellite =
  sat_rotation_y :: real
  speed :: real
  satGroup :: "real option"

record scene =
  earth_rotation_y :: real
  nightLights_rotation_y :: real
  nightLights_sunDirection :: vec3
  clouds_rotation_y :: real
  moonOrbit_rotation_y :: real
  moonMesh_rotation_y :: real
  satellites :: "satellite list"
  starfield_rotation_y :: real
  sunLight_position :: vec3
  previousTime :: real

definition utcHours :: "date \<Rightarrow> real" where
  "utcHours now =
     real_of_int (getUTCHours now) +
     real_of_int (getUTCMinutes now) / 60 +
     real_of_int (getUTCSeconds now) / 3600 +
     real_of_int (getUTCMilliseconds now) / 3600000"

definition sat_update :: "real \<Rightarrow> satellite \<Rightarrow> satellite" where
  \<comment> \<open>The callback of \<open>satellites.forEach\<close>.\<close>
  "sat_update delta sat =
     (let sat1 = sat\<lparr>sat_rotation_y := sat_rotation_y sat + delta * speed sat\<rparr>
      in case satGroup sat1 of
           Some r \<Rightarrow> sat1\<lparr>satGroup := Some (r + delta * 0.3)\<rparr>
         | None \<Rightarrow> sat1)"

definition animate :: "real \<Rightarrow> date \<Rightarrow> scene \<Rightarrow> scene" where
  \<comment> \<open>One frame. \<open>perf_now\<close> is what \<open>performance.now()\<close> returns (milliseconds since the
      page's time origin), \<open>now\<close> is \<open>new Date()\<close>. The clock text, the camera controls and
      the draw call do not touch the record.\<close>
  "animate perf_now now w =
     (let currentTime = perf_now / 1000;
          delta = min (currentTime - previousTime w) 0.1;
          w1 = w\<lparr>previousTime := currentTime\<rparr>;
          w2 = w1\<lparr>earth_rotation_y := (utcHours now / 24) * pi * 2\<rparr>;
          w3 = w2\<lparr>nightLights_rotation_y := earth_rotation_y w2\<rparr>;
          sunDir = normalize_vec (sunLight_position w3);
          w4 = w3\<lparr>nightLights_sunDirection := sunDir\<rparr>;
          w5 = w4\<lparr>clouds_rotation_y := earth_rotation_y w4 + currentTime * 0.003\<rparr>;
          w6 = w5\<lparr>moonOrbit_rotation_y := moonOrbit_rotation_y w5 + delta * 0.08\<rparr>;
          w7 = w6\<lparr>moonMesh_rotation_y := moonMesh_rotation_y w6 + delta * 0.08\<rparr>;
          w8 = w7\<lparr>satellites := map (sat_update delta) (satellites w7)\<rparr>
      in w8\<lparr>starfield_rotation_y := starfield_rotation_y w8 + delta * 0.001\<rparr>)"

section \<open>Scene assembly\<close>

definition EARTH_RADIUS :: real where
  "EARTH_RADIUS = 5"

definition createSatellite :: "real \<Rightarrow> real \<Rightarrow> nat \<Rightarrow> real \<Rightarrow> satellite" where
  \<comment> \<open>A new orbit group has \<open>rotation.y = 0\<close>, as has the body group stored in
      \<open>userData.satGroup\<close>. The random tilts go to \<open>rotation.x\<close> and \<open>rotation.z\<close>, and
      radius, colour and size to the geometry; \<open>animate\<close> reads none of them.\<close>
  "createSatellite orbitRadius spd color size_sat =
     \<lparr>sat_rotation_y = 0, speed = spd, satGroup = Some 0\<rparr>"

definition initial_scene :: "real \<Rightarrow> scene" where
  \<comment> \<open>The scene as the module assembles it before the first frame; \<open>perf_load\<close> is the
      reading of \<open>performance.now()\<close> that initialises \<open>previousTime\<close>.\<close>
  "initial_scene perf_load =
     \<lparr>earth_rotation_y = 0,
      nightLights_rotation_y = 0,
      nightLights_sunDirection = normalize_vec (1, 0, 1),
      clouds_rotation_y = 0,
      moonOrbit_rotation_y = 0,
      moonMesh_rotation_y = 0,
      satellites =
        [createSatellite (EARTH_RADIUS + 2.0) 0.5 12632256 0.12,
         createSatellite (EARTH_RADIUS + 3.5) 0.3 11189196 0.1,
         createSatellite (EARTH_RADIUS + 1.5) 0.7 14540253 0.08],
      starfield_rotation_y = 0,
      sunLight_position = (20, 5, 20),
      previousTime = perf_load / 1000\<rparr>"

section \<open>Notions of the specification\<close>

definition real_mod :: "real \<Rightarrow> real \<Rightarrow> real" where
  \<comment> \<open>The specification's \<open>x mod m\<close> on real numbers, for \<open>0 < m\<close>: the representative of
      \<open>x\<close> in \<open>[0, m)\<close>. No function of the source computes it.\<close>
  "real_mod x m = x - m * real_of_int \<lfloor>x / m\<rfloor>"

definition secondsSinceUTCMidnight :: "date \<Rightarrow> real" where
  \<comment> \<open>The specification's wall-clock seconds since UTC midnight.\<close>
  "secondsSinceUTCMidnight t = real_of_int (t mod 86400000) / 1000"

definition spec_cloud_angle :: "date \<Rightarrow> real" where
  \<comment> \<open>The cloud angle as the specification words it: a function of the wall clock alone.\<close>
  "spec_cloud_angle t = (utcHours t / 24) * (2 * pi) + secondsSinceUTCMidnight t * 0.003"

section \<open>A scene after many frames\<close>

definition tick :: "scene \<Rightarrow> scene" where
  \<comment> \<open>A frame that the scheduler runs 100 ms after the previous one.\<close>
  "tick w = animate (previousTime w * 1000 + 100) 0 w"

definition late_scene :: scene where
  \<comment> \<open>The scene 160 such frames after loading: 16 seconds in, the satellite of speed 0.5
      has gone once round and more.\<close>
  "late_scene = (tick ^^ 160) (initial_scene 0)"

section \<open>Shaders\<close>

type_synonym vec4 = "real \<times> real \<times> real \<times> real"

definition alpha :: "vec4 \<Rightarrow> real" where
  \<comment> \<open>The \<open>a\<close> component of \<open>gl_FragColor\<close>.\<close>
  "alpha c = (case c of (r, g, b, a) \<Rightarrow> a)"

definition pow_glsl :: "real \<Rightarrow> real \<Rightarrow> real" where
  \<comment> \<open>GLSL \<open>pow(x, y)\<close>, which the language defines for \<open>0 < x\<close>, and for \<open>x = 0\<close> when
      \<open>0 < y\<close> (the value is then 0, as \<open>0 powr y\<close> is).\<close>
  "pow_glsl x y = x powr y"

definition clamp_glsl :: "real \<Rightarrow> real \<Rightarrow> real \<Rightarrow> real" where
  \<comment> \<open>GLSL \<open>clamp(x, minVal, maxVal) = min(max(x, minVal), maxVal)\<close>.\<close>
  "clamp_glsl x minVal maxVal = min (max x minVal) maxVal"

definition smoothstep :: "real \<Rightarrow> real \<Rightarrow> real \<Rightarrow> real" where
  \<comment> \<open>GLSL \<open>smoothstep(edge0, edge1, x)\<close> by the formula the language gives for it:
      \<open>t = clamp((x - edge0) / (edge1 - edge0), 0.0, 1.0); return t * t * (3.0 - 2.0 * t)\<close>.
      The language leaves the result open when \<open>edge1 \<le> edge0\<close>, the order the night-lights
      shader uses; the model takes the formula there too.\<close>
  "smoothstep edge0 edge1 x =
     (let t = clamp_glsl ((x - edge0) / (edge1 - edge0)) 0 1 in t * t * (3 - 2 * t))"

definition atmosphere_fragment :: "vec3 \<Rightarrow> vec3 \<Rightarrow> vec4" where
  \<comment> \<open>The fragment shader of \<open>createAtmosphere\<close>: \<open>gl_FragColor\<close> from the two varyings.\<close>
  "atmosphere_fragment vNormal vViewDir =
     (let fresnel = 1 - dot vNormal vViewDir;
          fresnel = pow_glsl fresnel 3.5
      in (0.3, 0.6, 1.0, fresnel * 0.65))"

definition nightFactor :: "real \<Rightarrow> real" where
  \<comment> \<open>The local \<open>nightFactor\<close> of the fragment shader of \<open>createNightLights\<close>.\<close>
  "nightFactor sunFacing = smoothstep (- 0.1) (- 0.3) sunFacing"

definition nightLights_fragment :: "vec4 \<Rightarrow> vec3 \<Rightarrow> vec3 \<Rightarrow> vec4" where
  \<comment> \<open>The fragment shader of \<open>createNightLights\<close>; \<open>nightColor\<close> is the texel
      \<open>texture2D(nightMap, vUv)\<close>.\<close>
  "nightLights_fragment nightColor sunDirection vNormalW =
     (let sunFacing = dot vNormalW sunDirection;
          nf = nightFactor sunFacing
      in case nightColor of (r, g, b, a) \<Rightarrow>
           (r * nf * 1.5, g * nf * 1.5, b * nf * 1.5, nf * r))"

section \<open>Stores into a Float32Array\<close>

text \<open>
  The arithmetic of \<open>createStarfield\<close> is done on JavaScript numbers, modelled by the reals,
  but each result is written to a \<open>Float32Array\<close>, which narrows it to binary32. The
  narrowing is modelled: what a cell holds is \<open>fround\<close> of the number written.
\<close>

definition round_even :: "real \<Rightarrow> int" where
  \<comment> \<open>The integer nearest to \<open>t\<close>, the even one of the two when \<open>t\<close> lies halfway.\<close>
  "round_even t =
     (let f = \<lfloor>t\<rfloor> in
        if t - real_of_int f < 1 / 2 then f
        else if 1 / 2 < t - real_of_int f then f + 1
        else if even f then f else f + 1)"

definition fround :: "real \<Rightarrow> real" where
  \<comment> \<open>The binary32 value that a store into a \<open>Float32Array\<close> cell keeps of the number
      \<open>x\<close> (as \<open>Math.fround\<close>): \<open>x\<close> rounded to a multiple of the unit in the last place of
      its binade, 24 significant bits, ties to even, with the fixed unit \<open>2 powr - 149\<close> below
      \<open>2 powr - 126\<close>. Magnitudes from \<open>2 powr 128\<close> on, which a store turns into an
      infinity, do not occur here: no stored number exceeds 300 in magnitude.\<close>
  "fround x =
     (if x = 0 then 0
      else let e = max \<lfloor>log 2 \<bar>x\<bar>\<rfloor> (- 126);
               ulp = 2 powr (real_of_int e - 23)
           in real_of_int (round_even (x / ulp)) * ulp)"

section \<open>The starfield\<close>

text \<open>
  \<open>Math.random\<close> takes its values from a sequence \<open>rng\<close>: its call number \<open>k\<close>, counted
  from the entry to \<open>createStarfield\<close>, returns \<open>rng k\<close>. The buffers are the three \<open>Float32Array\<close>s and the number of calls
  made so far. A typed array has a fixed length and ignores a write outside it, as
  \<open>xs[i := v]\<close> does.
\<close>

definition starCount :: nat where
  "starCount = 6000"

record star_buffers =
  positions :: "real list"
  sizes :: "real list"
  colors :: "real list"
  calls :: nat

definition star_body :: "(nat \<Rightarrow> real) \<Rightarrow> nat \<Rightarrow> star_buffers \<Rightarrow> star_buffers" where
  \<comment> \<open>The body of the \<open>for\<close> loop of \<open>createStarfield\<close> at index \<open>i\<close>: five calls of
      \<open>Math.random\<close>, in the order of the source, and nine stores into the typed arrays.\<close>
  "star_body rng i b =
     (let k = calls b;
          r = 200 + rng k * 100;
          theta = rng (k + 1) * pi * 2;
          phi = arccos (2 * rng (k + 2) - 1);
          positions1 = (positions b)[i * 3 := fround (r * sin phi * cos theta)];
          positions2 = positions1[i * 3 + 1 := fround (r * sin phi * sin theta)];
          positions3 = positions2[i * 3 + 2 := fround (r * cos phi)];
          sizes1 = (sizes b)[i := fround (0.3 + rng (k + 3) * 0.7)];
          temp = rng (k + 4);
          colors3 =
            (if temp < 0.15 then
               (colors b)[i * 3 := fround 1.0, i * 3 + 1 := fround 0.85, i * 3 + 2 := fround 0.7]
             else if temp < 0.3 then
               (colors b)[i * 3 := fround 0.7, i * 3 + 1 := fround 0.8, i * 3 + 2 := fround 1.0]
             else
               (colors b)[i * 3 := fround 1.0, i * 3 + 1 := fround 1.0, i * 3 + 2 := fround 1.0])
      in \<lparr>positions = positions3, sizes = sizes1, colors = colors3, calls = k + 5\<rparr>)"

function star_loop :: "(nat \<Rightarrow> real) \<Rightarrow> nat \<Rightarrow> star_buffers \<Rightarrow> star_buffers" where
  "star_loop rng i b = (if i < starCount then star_loop rng (i + 1) (star_body rng i b) else b)"
  by pat_completeness auto

termination
  by (relation "measure (\<lambda>(rng, i, b). starCount - i)") auto

definition createStarfield :: "(nat \<Rightarrow> real) \<Rightarrow> star_buffers" where
  \<comment> \<open>The three attribute arrays of the geometry that \<open>createStarfield\<close> returns; a new
      \<open>Float32Array\<close> is filled with zeros. \<open>rng k\<close> is the value of the call number \<open>k\<close> of
      \<open>Math.random\<close> counted from the entry to \<open>createStarfield\<close>.\<close>
  "createStarfield rng =
     star_loop rng 0
       \<lparr>positions = replicate (starCount * 3) 0,
        sizes = replicate starCount 0,
        colors = replicate (starCount * 3) 0,
        calls = 0\<rparr>"

definition point_count :: "star_buffers \<Rightarrow> nat" where
  \<comment> \<open>The \<open>count\<close> of the position attribute: array length by item size 3.\<close>
  "point_count b = length (positions b) div 3"

definition star_position :: "star_buffers \<Rightarrow> nat \<Rightarrow> vec3" where
  "star_position b i = (positions b ! (i * 3), positions b ! (i * 3 + 1), positions b ! (i * 3 + 2))"

definition star_size :: "star_buffers \<Rightarrow> nat \<Rightarrow> real" where
  "star_size b i = sizes b ! i"

definition star_color :: "star_buffers \<Rightarrow> nat \<Rightarrow> vec3" where
  "star_color b i = (colors b ! (i * 3), colors b ! (i * 3 + 1), colors b ! (i * 3 + 2))"

definition star_point :: "(nat \<Rightarrow> real) \<Rightarrow> nat \<Rightarrow> vec3" where
  \<comment> \<open>The point that iteration \<open>i\<close> computes, before it is stored: \<open>r\<close>, \<open>theta\<close> and
      \<open>phi\<close> come from the calls \<open>5 * i\<close>, \<open>5 * i + 1\<close> and \<open>5 * i + 2\<close> of \<open>Math.random\<close>.\<close>
  "star_point rng i =
     (let r = 200 + rng (5 * i) * 100;
          theta = rng (5 * i + 1) * pi * 2;
          phi = arccos (2 * rng (5 * i + 2) - 1)
      in (r * sin phi * cos theta, r * sin phi * sin theta, r * cos phi))"

definition fround_vec :: "vec3 \<Rightarrow> vec3" where
  "fround_vec v = (case v of (x, y, z) \<Rightarrow> (fround x, fround y, fround z))"

definition star_tint :: "real \<Rightarrow> vec3" where
  \<comment> \<open>The colour cells written for the draw \<open>temp\<close>.\<close>
  "star_tint temp =
     (if temp < 0.15 then (fround 1.0, fround 0.85, fround 0.7)
      else if temp < 0.3 then (fround 0.7, fround 0.8, fround 1.0)
      else (fround 1.0, fround 1.0, fround 1.0))"

definition star_written :: "(nat \<Rightarrow> real) \<Rightarrow> star_buffers \<Rightarrow> nat \<Rightarrow> bool" where
  \<comment> \<open>The cells of the point \<open>j\<close> hold what iteration \<open>j\<close> stores.\<close>
  "star_written rng b j \<longleftrightarrow>
     star_position b j = fround_vec (star_point rng j) \<and>
     star_size b j = fround (0.3 + rng (5 * j + 3) * 0.7) \<and>
     star_color b j = star_tint (rng (5 * j + 4))"

definition warm_draws :: "nat \<Rightarrow> real" where
  \<comment> \<open>A sequence of draws: the third is \<open>25 / 34\<close>, all others are 0.\<close>
  "warm_draws k = (if k = 2 then 25 / 34 else 0)"

definition buffers_sized :: "star_buffers \<Rightarrow> bool" where
  "buffers_sized b \<longleftrightarrow>
     length (positions b) = starCount * 3 \<and> length (sizes b) = starCount \<and>
     length (colors b) = starCount * 3"

section \<open>Numbers that may be NaN\<close>

text \<open>
  A JavaScript number is a real number or NaN (the infinities are left out: an angle would
  have to pass \<open>1.7e308\<close> to reach one). Arithmetic and \<open>Math.min\<close> give NaN as soon as
  an operand is NaN. The part of \<open>animate\<close> that integrates angles is embedded a second
  time on such numbers, to say when an angle can become NaN.
\<close>

datatype js_number = NaN | Num real

definition js_add :: "js_number \<Rightarrow> js_number \<Rightarrow> js_number" where
  "js_add a b = (case a of NaN \<Rightarrow> NaN | Num x \<Rightarrow> (case b of NaN \<Rightarrow> NaN | Num y \<Rightarrow> Num (x + y)))"

definition js_sub :: "js_number \<Rightarrow> js_number \<Rightarrow> js_number" where
  "js_sub a b = (case a of NaN \<Rightarrow> NaN | Num x \<Rightarrow> (case b of NaN \<Rightarrow> NaN | Num y \<Rightarrow> Num (x - y)))"

definition js_mul :: "js_number \<Rightarrow> js_number \<Rightarrow> js_number" where
  "js_mul a b = (case a of NaN \<Rightarrow> NaN | Num x \<Rightarrow> (case b of NaN \<Rightarrow> NaN | Num y \<Rightarrow> Num (x * y)))"

definition js_min :: "js_number \<Rightarrow> js_number \<Rightarrow> js_number" where
  \<comment> \<open>\<open>Math.min\<close>: NaN as soon as one argument is NaN.\<close>
  "js_min a b = (case a of NaN \<Rightarrow> NaN | Num x \<Rightarrow> (case b of NaN \<Rightarrow> NaN | Num y \<Rightarrow> Num (min x y)))"

record js_satellite =
  js_sat_rotation_y :: js_number
  js_speed :: js_number
  js_satGroup :: "js_number option"

record js_angles =
  js_previousTime :: js_number
  js_moonOrbit_rotation_y :: js_number
  js_moonMesh_rotation_y :: js_number
  js_satellites :: "js_satellite list"
  js_starfield_rotation_y :: js_number

definition js_sat_update :: "js_number \<Rightarrow> js_satellite \<Rightarrow> js_satellite" where
  \<comment> \<open>The callback of \<open>satellites.forEach\<close>, on numbers that may be NaN.\<close>
  "js_sat_update delta sat =
     (let sat1 = sat\<lparr>js_sat_rotation_y :=
                  js_add (js_sat_rotation_y sat) (js_mul delta (js_speed sat))\<rparr>
      in case js_satGroup sat1 of
           Some r \<Rightarrow> sat1\<lparr>js_satGroup := Some (js_add r (js_mul delta (Num 0.3)))\<rparr>
         | None \<Rightarrow> sat1)"

definition animate_js :: "real \<Rightarrow> js_angles \<Rightarrow> js_angles" where
  \<comment> \<open>The lines of \<open>animate\<close> that compute the delta and integrate angles (400 to 402 and
      423 to 436), on numbers that may be NaN. \<open>performance.now()\<close> itself always returns
      a number.\<close>
  "animate_js perf_now s =
     (let currentTime = Num (perf_now / 1000);
          delta = js_min (js_sub currentTime (js_previousTime s)) (Num 0.1);
          s1 = s\<lparr>js_previousTime := currentTime\<rparr>;
          s2 = s1\<lparr>js_moonOrbit_rotation_y :=
                 js_add (js_moonOrbit_rotation_y s1) (js_mul delta (Num 0.08))\<rparr>;
          s3 = s2\<lparr>js_moonMesh_rotation_y :=
                 js_add (js_moonMesh_rotation_y s2) (js_mul delta (Num 0.08))\<rparr>;
          s4 = s3\<lparr>js_satellites := map (js_sat_update delta) (js_satellites s3)\<rparr>
      in s4\<lparr>js_starfield_rotation_y :=
              js_add (js_starfield_rotation_y s4) (js_mul delta (Num 0.001))\<rparr>)"

definition js_of_satellite :: "satellite \<Rightarrow> js_satellite" where
  "js_of_satellite sat =
     \<lparr>js_sat_rotation_y = Num (sat_rotation_y sat), js_speed = Num (speed sat),
      js_satGroup = map_option Num (satGroup sat)\<rparr>"

definition js_of_scene :: "scene \<Rightarrow> js_angles" where
  \<comment> \<open>The integrated angles of a scene, none of them NaN.\<close>
  "js_of_scene w =
     \<lparr>js_previousTime = Num (previousTime w),
      js_moonOrbit_rotation_y = Num (moonOrbit_rotation_y w),
      js_moonMesh_rotation_y = Num (moonMesh_rotation_y w),
      js_satellites = map js_of_satellite (satellites w),
      js_starfield_rotation_y = Num (starfield_rotation_y w)\<rparr>"

definition js_satellite_numbers :: "js_satellite \<Rightarrow> bool" where
  "js_satellite_numbers sat \<longleftrightarrow>
     js_sat_rotation_y sat \<noteq> NaN \<and> js_satGroup sat \<noteq> Some NaN"

definition js_numbers :: "js_angles \<Rightarrow> bool" where
  \<comment> \<open>No integrated angle is NaN.\<close>
  "js_numbers s \<longleftrightarrow>
     js_moonOrbit_rotation_y s \<noteq> NaN \<and> js_moonMesh_rotation_y s \<noteq> NaN \<and>
     list_all js_satellite_numbers (js_satellites s) \<and> js_starfield_rotation_y s \<noteq> NaN"

section \<open>Properties of the animator\<close>

text \<open>
  C2. After every frame the night-lights shell has the rotation angle of the planet
  surface, whatever the timer reading, the date and the scene before the frame.
\<close>

theorem nightLights_follow_earth:
  "nightLights_rotation_y (animate perf_now now w) = earth_rotation_y (animate perf_now now w)"
  by (simp add: animate_def Let_def)

lemma getUTCHours_bounds: "0 \<le> getUTCHours t \<and> getUTCHours t \<le> 23"
  by (simp add: getUTCHours_def)

lemma getUTCMinutes_bounds: "0 \<le> getUTCMinutes t \<and> getUTCMinutes t \<le> 59"
  by (simp add: getUTCMinutes_def)

lemma getUTCSeconds_bounds: "0 \<le> getUTCSeconds t \<and> getUTCSeconds t \<le> 59"
  by (simp add: getUTCSeconds_def)

lemma getUTCMilliseconds_bounds: "0 \<le> getUTCMilliseconds t \<and> getUTCMilliseconds t \<le> 999"
  by (simp add: getUTCMilliseconds_def)

lemma utcHours_nonneg: "0 \<le> utcHours t"
  using getUTCHours_bounds [of t] getUTCMinutes_bounds [of t]
    getUTCSeconds_bounds [of t] getUTCMilliseconds_bounds [of t]
  by (simp add: utcHours_def)

lemma utcHours_less_24: "utcHours t < 24"
proof -
  have h: "real_of_int (getUTCHours t) \<le> 23"
    using getUTCHours_bounds [of t] by linarith
  have m: "real_of_int (getUTCMinutes t) \<le> 59"
    using getUTCMinutes_bounds [of t] by linarith
  have s: "real_of_int (getUTCSeconds t) \<le> 59"
    using getUTCSeconds_bounds [of t] by linarith
  have ms: "real_of_int (getUTCMilliseconds t) \<le> 999"
    using getUTCMilliseconds_bounds [of t] by linarith
  show ?thesis
    unfolding utcHours_def using h m s ms by simp
qed

lemma utcHours_at_hour:
  assumes "0 \<le> h" "h < 24"
  shows "utcHours (day * 86400000 + h * 3600000) = real_of_int h"
proof -
  let ?t = "day * 86400000 + h * 3600000"
  have t: "?t = (day * 24 + h) * 3600000" by simp
  have t': "?t = (day * 1440 + h * 60) * 60000" by simp
  have t'': "?t = (day * 86400 + h * 3600) * 1000" by simp
  have "getUTCHours ?t = h"
    unfolding getUTCHours_def t using assms by simp
  moreover have "getUTCMinutes ?t = 0"
    unfolding getUTCMinutes_def t' by simp
  moreover have "getUTCSeconds ?t = 0"
    unfolding getUTCSeconds_def t'' by simp
  moreover have "getUTCMilliseconds ?t = 0"
    unfolding getUTCMilliseconds_def t'' by simp
  ultimately show ?thesis by (simp add: utcHours_def)
qed

lemma earth_rotation_animate:
  "earth_rotation_y (animate perf_now now w) = (utcHours now / 24) * pi * 2"
  by (simp add: animate_def Let_def)

text \<open>
  C1. For every UTC timestamp \<open>T\<close> the frame sets the planet's rotation angle to
  \<open>(utcHours T / 24) * 2 * pi\<close>, where \<open>utcHours\<close> is \<open>H + M/60 + S/3600 + ms/3600000\<close>
  of \<open>T\<close>. The angle depends on \<open>T\<close> only: another timer reading and another scene before
  the frame give the same angle. At 00:00:00.000 UTC of any day the angle is 0, at
  06:00:00.000 it is \<open>pi / 2\<close>, at 12:00:00.000 it is \<open>pi\<close> (exactly, over the reals).
\<close>

theorem earth_rotation_from_utc:
  "earth_rotation_y (animate perf_now T w) = (utcHours T / 24) * (2 * pi)
   \<and> utcHours T = real_of_int (getUTCHours T) + real_of_int (getUTCMinutes T) / 60
        + real_of_int (getUTCSeconds T) / 3600 + real_of_int (getUTCMilliseconds T) / 3600000
   \<and> earth_rotation_y (animate perf_now T w) = earth_rotation_y (animate perf_now' T w')
   \<and> earth_rotation_y (animate perf_now (day * 86400000) w) = 0
   \<and> earth_rotation_y (animate perf_now (day * 86400000 + 6 * 3600000) w) = pi / 2
   \<and> earth_rotation_y (animate perf_now (day * 86400000 + 12 * 3600000) w) = pi"
proof -
  have a0: "utcHours (day * 86400000) = 0"
    using utcHours_at_hour [of 0 day] by simp
  have a6: "utcHours (day * 86400000 + 6 * 3600000) = 6"
    using utcHours_at_hour [of 6 day] by simp
  have a12: "utcHours (day * 86400000 + 12 * 3600000) = 12"
    using utcHours_at_hour [of 12 day] by simp
  have u: "utcHours T = real_of_int (getUTCHours T) + real_of_int (getUTCMinutes T) / 60
        + real_of_int (getUTCSeconds T) / 3600 + real_of_int (getUTCMilliseconds T) / 3600000"
    by (simp add: utcHours_def)
  have e: "earth_rotation_y (animate perf_now T w) = (utcHours T / 24) * (2 * pi)"
    by (simp add: earth_rotation_animate)
  have p: "earth_rotation_y (animate perf_now T w) = earth_rotation_y (animate perf_now' T w')"
    by (simp add: earth_rotation_animate)
  have z: "earth_rotation_y (animate perf_now (day * 86400000) w) = 0"
    by (simp add: earth_rotation_animate a0)
  have q: "earth_rotation_y (animate perf_now (day * 86400000 + 6 * 3600000) w) = pi / 2"
    unfolding earth_rotation_animate a6 by simp
  have h: "earth_rotation_y (animate perf_now (day * 86400000 + 12 * 3600000) w) = pi"
    unfolding earth_rotation_animate a12 by simp
  from e u p z q h show ?thesis by blast
qed

text \<open>
  C10. For every date the planet's rotation angle written by the frame lies in
  \<open>[0, 2 * pi)\<close>, and so does the angle of the night-lights shell: the UTC components are
  bounded by 23, 59, 59 and 999 and are not negative, so \<open>utcHours < 24\<close>.
\<close>

theorem earth_rotation_in_turn:
  "0 \<le> earth_rotation_y (animate perf_now T w)
   \<and> earth_rotation_y (animate perf_now T w) < 2 * pi
   \<and> 0 \<le> nightLights_rotation_y (animate perf_now T w)
   \<and> nightLights_rotation_y (animate perf_now T w) < 2 * pi"
proof -
  have n: "nightLights_rotation_y (animate perf_now T w) = (utcHours T / 24) * pi * 2"
    by (simp add: animate_def Let_def)
  have lo: "0 \<le> (utcHours T / 24) * pi * 2"
    using utcHours_nonneg [of T] by simp
  have "utcHours T / 24 < 1"
    using utcHours_less_24 [of T] by simp
  then have "(utcHours T / 24) * (2 * pi) < 1 * (2 * pi)"
    by (intro mult_strict_right_mono) simp_all
  then have hi: "(utcHours T / 24) * pi * 2 < 2 * pi"
    by (simp add: mult.assoc mult.commute)
  show ?thesis
    using lo hi by (simp add: earth_rotation_animate n)
qed

lemma sat_update_rotation:
  "sat_rotation_y (sat_update delta sat) = sat_rotation_y sat + delta * speed sat"
  by (simp add: sat_update_def Let_def split: option.split)

lemma sat_update_speed: "speed (sat_update delta sat) = speed sat"
  by (simp add: sat_update_def Let_def split: option.split)

lemma sat_update_satGroup:
  "satGroup (sat_update delta sat) = map_option (\<lambda>r. r + delta * 0.3) (satGroup sat)"
  by (simp add: sat_update_def Let_def split: option.split)

lemma sat_update_zero: "sat_update 0 sat = sat"
  by (simp add: sat_update_def Let_def split: option.split)

lemma animate_previousTime: "previousTime (animate perf_now now w) = perf_now / 1000"
  by (simp add: animate_def Let_def)

lemma animate_moonOrbit:
  "moonOrbit_rotation_y (animate perf_now now w) =
     moonOrbit_rotation_y w + min (perf_now / 1000 - previousTime w) 0.1 * 0.08"
  by (simp add: animate_def Let_def)

lemma animate_moonMesh:
  "moonMesh_rotation_y (animate perf_now now w) =
     moonMesh_rotation_y w + min (perf_now / 1000 - previousTime w) 0.1 * 0.08"
  by (simp add: animate_def Let_def)

lemma animate_satellites:
  "satellites (animate perf_now now w) =
     map (sat_update (min (perf_now / 1000 - previousTime w) 0.1)) (satellites w)"
  by (simp add: animate_def Let_def)

lemma animate_starfield:
  "starfield_rotation_y (animate perf_now now w) =
     starfield_rotation_y w + min (perf_now / 1000 - previousTime w) 0.1 * 0.001"
  by (simp add: animate_def Let_def)

lemma animate_clouds:
  "clouds_rotation_y (animate perf_now now w) =
     (utcHours now / 24) * pi * 2 + (perf_now / 1000) * 0.003"
  by (simp add: animate_def Let_def)


lemma real_mod_less: "0 < m \<Longrightarrow> real_mod x m < m"
proof -
  assume m: "0 < m"
  have "x / m < real_of_int \<lfloor>x / m\<rfloor> + 1"
    by linarith
  with m have "x < (real_of_int \<lfloor>x / m\<rfloor> + 1) * m"
    by (simp only: pos_divide_less_eq)
  then show ?thesis
    by (simp add: real_mod_def algebra_simps)
qed

lemma real_mod_small: "0 \<le> x \<Longrightarrow> x < m \<Longrightarrow> real_mod x m = x"
proof -
  assume x: "0 \<le> x" "x < m"
  then have "0 \<le> x / m" "x / m < 1"
    by simp_all
  then have "\<lfloor>x / m\<rfloor> = 0"
    by linarith
  then show ?thesis
    by (simp add: real_mod_def)
qed

lemma tick_previousTime: "previousTime (tick w) = previousTime w + 0.1"
  by (simp add: tick_def animate_previousTime field_simps)

lemma tick_satellites: "satellites (tick w) = map (sat_update 0.1) (satellites w)"
proof -
  have e: "(previousTime w * 1000 + 100) / 1000 - previousTime w = 0.1"
    by (simp add: field_simps)
  show ?thesis
    unfolding tick_def animate_satellites e by simp
qed

lemma ticks_previousTime: "previousTime ((tick ^^ n) w) = previousTime w + real n * 0.1"
  by (induction n) (simp_all add: tick_previousTime algebra_simps)

lemma ticks_satellite:
  assumes "i < length (satellites w)"
  shows "length (satellites ((tick ^^ n) w)) = length (satellites w)
     \<and> speed (satellites ((tick ^^ n) w) ! i) = speed (satellites w ! i)
     \<and> sat_rotation_y (satellites ((tick ^^ n) w) ! i) =
         sat_rotation_y (satellites w ! i) + real n * (0.1 * speed (satellites w ! i))"
proof (induction n)
  case 0
  show ?case by simp
next
  case (Suc n)
  then have "i < length (satellites ((tick ^^ n) w))"
    using assms by simp
  with Suc show ?case
    by (simp add: tick_satellites sat_update_rotation sat_update_speed algebra_simps)
qed

lemma late_scene_satellite:
  "length (satellites late_scene) = 3 \<and> previousTime late_scene = 16
   \<and> speed (satellites late_scene ! 0) = 0.5 \<and> sat_rotation_y (satellites late_scene ! 0) = 8"
proof -
  have i: "0 < length (satellites (initial_scene 0))"
    by (simp add: initial_scene_def)
  show ?thesis
    unfolding late_scene_def
    using ticks_satellite [OF i, of 160] ticks_previousTime [of 160 "initial_scene 0"]
    by (simp add: initial_scene_def createSatellite_def)
qed

lemma two_frames_satellite:
  assumes "i < length (satellites w)"
  shows "sat_rotation_y (satellites (animate p2 T2 (animate p1 T1 w)) ! i) =
     sat_rotation_y (satellites w ! i)
       + speed (satellites w ! i) * min (p1 / 1000 - previousTime w) 0.1
       + speed (satellites w ! i) * min (p2 / 1000 - p1 / 1000) 0.1"
  using assms
  by (simp add: animate_satellites animate_previousTime sat_update_rotation sat_update_speed)

text \<open>
  C5, amended. For every satellite of the scene and two consecutive frames with clamped
  deltas \<open>d1\<close> and \<open>d2\<close>, the orbit-group angle after both frames is
  \<open>a0 + s * d1 + s * d2\<close>, not reduced modulo \<open>2 * pi\<close>. Two other frames whose deltas
  have the same sum lead to the same angle. Where the angle reached lies in
  \<open>[0, 2 * pi)\<close> it is \<open>(a0 + s * d1 + s * d2) mod (2 * pi)\<close>.
\<close>

theorem satellite_two_frames:
  assumes "i < length (satellites w)"
  shows "sat_rotation_y (satellites (animate p2 T2 (animate p1 T1 w)) ! i) =
           sat_rotation_y (satellites w ! i)
             + speed (satellites w ! i) * min (p1 / 1000 - previousTime w) 0.1
             + speed (satellites w ! i) * min (p2 / 1000 - p1 / 1000) 0.1
         \<and> (min (p1 / 1000 - previousTime w) 0.1 + min (p2 / 1000 - p1 / 1000) 0.1 =
              min (q1 / 1000 - previousTime w) 0.1 + min (q2 / 1000 - q1 / 1000) 0.1 \<longrightarrow>
            sat_rotation_y (satellites (animate p2 T2 (animate p1 T1 w)) ! i) =
            sat_rotation_y (satellites (animate q2 U2 (animate q1 U1 w)) ! i))
         \<and> (0 \<le> sat_rotation_y (satellites (animate p2 T2 (animate p1 T1 w)) ! i)
            \<and> sat_rotation_y (satellites (animate p2 T2 (animate p1 T1 w)) ! i) < 2 * pi \<longrightarrow>
            sat_rotation_y (satellites (animate p2 T2 (animate p1 T1 w)) ! i) =
            real_mod (sat_rotation_y (satellites w ! i)
               + speed (satellites w ! i) * min (p1 / 1000 - previousTime w) 0.1
               + speed (satellites w ! i) * min (p2 / 1000 - p1 / 1000) 0.1) (2 * pi))"
proof -
  let ?a0 = "sat_rotation_y (satellites w ! i)" and ?s = "speed (satellites w ! i)"
  let ?d1 = "min (p1 / 1000 - previousTime w) 0.1" and ?d2 = "min (p2 / 1000 - p1 / 1000) 0.1"
  let ?e1 = "min (q1 / 1000 - previousTime w) 0.1" and ?e2 = "min (q2 / 1000 - q1 / 1000) 0.1"
  let ?r = "sat_rotation_y (satellites (animate p2 T2 (animate p1 T1 w)) ! i)"
  have a: "?r = ?a0 + ?s * ?d1 + ?s * ?d2"
    by (rule two_frames_satellite [OF assms])
  have a': "sat_rotation_y (satellites (animate q2 U2 (animate q1 U1 w)) ! i) =
      ?a0 + ?s * ?e1 + ?s * ?e2"
    by (rule two_frames_satellite [OF assms])
  have b: "?d1 + ?d2 = ?e1 + ?e2 \<longrightarrow>
      ?r = sat_rotation_y (satellites (animate q2 U2 (animate q1 U1 w)) ! i)"
  proof
    assume eq: "?d1 + ?d2 = ?e1 + ?e2"
    have "?a0 + ?s * ?d1 + ?s * ?d2 = ?a0 + ?s * (?d1 + ?d2)"
      by (simp add: distrib_left)
    also have "\<dots> = ?a0 + ?s * (?e1 + ?e2)"
      by (simp only: eq)
    also have "\<dots> = ?a0 + ?s * ?e1 + ?s * ?e2"
      by (simp add: distrib_left)
    finally show "?r = sat_rotation_y (satellites (animate q2 U2 (animate q1 U1 w)) ! i)"
      by (simp only: a a')
  qed
  have c: "0 \<le> ?r \<and> ?r < 2 * pi \<longrightarrow> ?r = real_mod (?a0 + ?s * ?d1 + ?s * ?d2) (2 * pi)"
  proof
    assume "0 \<le> ?r \<and> ?r < 2 * pi"
    then have "real_mod ?r (2 * pi) = ?r"
      by (simp add: real_mod_small)
    then show "?r = real_mod (?a0 + ?s * ?d1 + ?s * ?d2) (2 * pi)"
      by (simp only: a)
  qed
  from a b c show ?thesis by blast
qed

theorem satellite_two_frames_witness:
  "sat_rotation_y (satellites (animate 100 0 (animate 40 0 (initial_scene 0))) ! 0) = 0.05
   \<and> sat_rotation_y (satellites (animate 100 0 (animate 40 0 (initial_scene 0))) ! 0) =
       sat_rotation_y (satellites (animate 100 0 (animate 60 0 (initial_scene 0))) ! 0)
   \<and> sat_rotation_y (satellites (animate 100 0 (animate 40 0 (initial_scene 0))) ! 0) =
       real_mod 0.05 (2 * pi)"
proof -
  let ?r = "sat_rotation_y (satellites (animate 100 0 (animate 40 0 (initial_scene 0))) ! 0)"
  have len: "0 < length (satellites (initial_scene 0))"
    by (simp add: initial_scene_def)
  note t = satellite_two_frames [OF len, of 100 0 40 0 60 100 0 0]
  have e: "sat_rotation_y (satellites (initial_scene 0) ! 0)
      + speed (satellites (initial_scene 0) ! 0) * min (40 / 1000 - previousTime (initial_scene 0)) 0.1
      + speed (satellites (initial_scene 0) ! 0) * min (100 / 1000 - 40 / 1000) 0.1 = 0.05"
    by (simp add: initial_scene_def createSatellite_def)
  have v: "?r = 0.05"
    unfolding t [THEN conjunct1] by (rule e)
  have d: "min (40 / 1000 - previousTime (initial_scene 0)) 0.1 + min (100 / 1000 - 40 / 1000) 0.1 =
      min (60 / 1000 - previousTime (initial_scene 0)) 0.1 + min (100 / 1000 - 60 / 1000) (0.1 :: real)"
    by (simp add: initial_scene_def)
  have s: "?r = sat_rotation_y (satellites (animate 100 0 (animate 60 0 (initial_scene 0))) ! 0)"
    using t [THEN conjunct2, THEN conjunct1] d by (rule mp)
  have "0 \<le> ?r \<and> ?r < 2 * pi"
    unfolding v using pi_ge_two by simp
  with t [THEN conjunct2, THEN conjunct2] have "?r = real_mod 0.05 (2 * pi)"
    unfolding e by (rule mp)
  with v s show ?thesis by blast
qed

text \<open>
  C5 as stated fails: the frame adds \<open>delta * speed\<close> to the angle and never reduces it
  modulo \<open>2 * pi\<close>. Sixteen seconds after loading the first satellite stands at the angle
  8; two more frames of delta 0.1 lead to 8.1, which is not the representative of 8.1 in
  \<open>[0, 2 * pi)\<close>.
\<close>

theorem satellite_two_frames_counterexample:
  "sat_rotation_y (satellites (animate 16200 0 (animate 16100 0 late_scene)) ! 0) \<noteq>
     real_mod (8 + 0.5 * 0.1 + 0.5 * 0.1) (2 * pi)"
proof -
  have len: "0 < length (satellites late_scene)"
    by (simp add: late_scene_satellite)
  have l: "sat_rotation_y (satellites (animate 16200 0 (animate 16100 0 late_scene)) ! 0) = 8.1"
    unfolding two_frames_satellite [OF len] by (simp add: late_scene_satellite)
  have "real_mod (8 + 0.5 * 0.1 + 0.5 * 0.1) (2 * pi) < 2 * pi"
    by (rule real_mod_less) simp
  also have "\<dots> < 8"
    using pi_less_4 by simp
  finally show ?thesis
    unfolding l by simp
qed

text \<open>
  C8, amended. On every frame the cloud shell's rotation angle is the planet's rotation
  angle plus \<open>currentTime * 0.003\<close>, where \<open>currentTime\<close> is the reading of
  \<open>performance.now()\<close> in seconds (time since the page's time origin): a function of the
  date and the timer reading together.
\<close>

theorem clouds_rotation_from_timer:
  "clouds_rotation_y (animate perf_now T w) =
     earth_rotation_y (animate perf_now T w) + (perf_now / 1000) * 0.003
   \<and> clouds_rotation_y (animate perf_now T w) =
     (utcHours T / 24) * (2 * pi) + (perf_now / 1000) * 0.003"
  by (simp add: animate_def Let_def)

text \<open>
  C8 as stated fails: the drift term is taken from \<open>performance.now()\<close>, not from the
  date. At 00:00:01.000 UTC with a timer reading of 5 s the cloud angle is not the
  planet angle plus \<open>1 * 0.003\<close>, and two frames at the same date with different timer
  readings give different cloud angles.
\<close>

theorem clouds_rotation_counterexample:
  "clouds_rotation_y (animate 5000 1000 (initial_scene 0)) \<noteq> spec_cloud_angle 1000
   \<and> clouds_rotation_y (animate 5000 1000 (initial_scene 0)) \<noteq>
     clouds_rotation_y (animate 6000 1000 (initial_scene 0))"
  by (simp add: animate_clouds spec_cloud_angle_def secondsSinceUTCMidnight_def)

lemma map_sat_update_zero: "map (sat_update 0) sats = sats"
  by (induction sats) (simp_all add: sat_update_zero)

lemma js_sat_update_of_satellite:
  "js_sat_update (Num d) (js_of_satellite sat) = js_of_satellite (sat_update d sat)"
  by (simp add: js_sat_update_def js_of_satellite_def sat_update_def js_add_def js_mul_def Let_def
      split: option.split)

lemma animate_js_of_scene:
  "animate_js perf_now (js_of_scene w) = js_of_scene (animate perf_now T w)"
  by (simp add: animate_js_def js_of_scene_def animate_def Let_def js_add_def js_mul_def
      js_sub_def js_min_def js_sat_update_of_satellite)

lemma js_of_satellite_numbers: "js_satellite_numbers (js_of_satellite sat)"
  by (cases "satGroup sat") (simp_all add: js_satellite_numbers_def js_of_satellite_def)

lemma js_of_scene_numbers: "js_numbers (js_of_scene w)"
  by (simp add: js_numbers_def js_of_scene_def list_all_iff js_of_satellite_numbers)

lemma frames_js_of_scene:
  "\<exists>w'. fold animate_js readings (js_of_scene w) = js_of_scene w'"
proof (induction readings arbitrary: w)
  case Nil
  show ?case by auto
next
  case (Cons p ps)
  have "fold animate_js (p # ps) (js_of_scene w) = fold animate_js ps (js_of_scene (animate p 0 w))"
    by (simp add: animate_js_of_scene [of p w 0])
  then show ?case
    using Cons [of "animate p 0 w"] by simp
qed

lemma frames_numbers: "js_numbers (fold animate_js readings (js_of_scene w))"
  using frames_js_of_scene [of readings w] js_of_scene_numbers by auto

text \<open>
  C9. \<open>previousTime\<close> is an earlier reading of \<open>performance.now()\<close>, a timer that does not
  run backwards. For every frame of such a timer whose delta is 0 or negative, the frame
  leaves all integrated angles as they are (moon orbit, moon spin, satellite orbits and
  spins, starfield rotation), also when computed on numbers that may be NaN; and no
  integrated angle is NaN after the frame, nor after any sequence of frames from the
  scene as assembled.
\<close>

theorem nonpositive_delta_noop:
  assumes "previousTime w \<le> perf_now / 1000"
    and "min (perf_now / 1000 - previousTime w) 0.1 \<le> 0"
  shows "moonOrbit_rotation_y (animate perf_now T w) = moonOrbit_rotation_y w
     \<and> moonMesh_rotation_y (animate perf_now T w) = moonMesh_rotation_y w
     \<and> satellites (animate perf_now T w) = satellites w
     \<and> starfield_rotation_y (animate perf_now T w) = starfield_rotation_y w
     \<and> js_moonOrbit_rotation_y (animate_js perf_now (js_of_scene w)) =
         Num (moonOrbit_rotation_y w)
     \<and> js_moonMesh_rotation_y (animate_js perf_now (js_of_scene w)) =
         Num (moonMesh_rotation_y w)
     \<and> js_satellites (animate_js perf_now (js_of_scene w)) = js_satellites (js_of_scene w)
     \<and> js_starfield_rotation_y (animate_js perf_now (js_of_scene w)) =
         Num (starfield_rotation_y w)
     \<and> js_numbers (animate_js perf_now (js_of_scene w))
     \<and> js_numbers (fold animate_js readings (js_of_scene (initial_scene perf_load)))"
proof -
  have "perf_now / 1000 - previousTime w \<le> 0"
    using assms(2) by (simp add: min_le_iff_disj)
  with assms(1) have d: "min (perf_now / 1000 - previousTime w) 0.1 = 0"
    by simp
  have mo: "moonOrbit_rotation_y (animate perf_now T w) = moonOrbit_rotation_y w"
    unfolding animate_moonOrbit d by simp
  have mm: "moonMesh_rotation_y (animate perf_now T w) = moonMesh_rotation_y w"
    unfolding animate_moonMesh d by simp
  have sa: "satellites (animate perf_now T w) = satellites w"
    unfolding animate_satellites d by (rule map_sat_update_zero)
  have st: "starfield_rotation_y (animate perf_now T w) = starfield_rotation_y w"
    unfolding animate_starfield d by simp
  note js = animate_js_of_scene [of perf_now w T]
  have jmo: "js_moonOrbit_rotation_y (animate_js perf_now (js_of_scene w)) =
      Num (moonOrbit_rotation_y w)"
    unfolding js by (simp add: js_of_scene_def mo)
  have jmm: "js_moonMesh_rotation_y (animate_js perf_now (js_of_scene w)) =
      Num (moonMesh_rotation_y w)"
    unfolding js by (simp add: js_of_scene_def mm)
  have jsa: "js_satellites (animate_js perf_now (js_of_scene w)) = js_satellites (js_of_scene w)"
    unfolding js by (simp add: js_of_scene_def sa)
  have jst: "js_starfield_rotation_y (animate_js perf_now (js_of_scene w)) =
      Num (starfield_rotation_y w)"
    unfolding js by (simp add: js_of_scene_def st)
  have n: "js_numbers (animate_js perf_now (js_of_scene w))"
    unfolding js by (rule js_of_scene_numbers)
  have e: "js_numbers (fold animate_js readings (js_of_scene (initial_scene perf_load)))"
    by (rule frames_numbers)
  from mo mm sa st jmo jmm jsa jst n e show ?thesis
    by blast
qed

theorem nonpositive_delta_noop_witness:
  "moonOrbit_rotation_y (animate 1000 0 (initial_scene 1000)) = 0
   \<and> satellites (animate 1000 0 (initial_scene 1000)) = satellites (initial_scene 1000)
   \<and> js_starfield_rotation_y (animate_js 1000 (js_of_scene (initial_scene 1000))) = Num 0
   \<and> js_numbers (animate_js 1000 (js_of_scene (initial_scene 1000)))"
proof -
  have mono: "previousTime (initial_scene 1000) \<le> 1000 / 1000"
    by (simp add: initial_scene_def)
  have le: "min (1000 / 1000 - previousTime (initial_scene 1000)) 0.1 \<le> 0"
    by (simp add: initial_scene_def)
  note t = nonpositive_delta_noop [OF mono le, of 0 "[]" 0]
  have a: "moonOrbit_rotation_y (animate 1000 0 (initial_scene 1000)) = 0"
    unfolding t [THEN conjunct1] by (simp add: initial_scene_def)
  have c: "js_starfield_rotation_y (animate_js 1000 (js_of_scene (initial_scene 1000))) = Num 0"
    using t by (simp add: initial_scene_def)
  from t a c show ?thesis
    by blast
qed

section \<open>Properties of the shaders\<close>

lemma nightFactor_ramp:
  "nightFactor x = (let t = min (max (- 5 * x - 1 / 2) 0) 1 in t * t * (3 - 2 * t))"
proof -
  have e: "(x - (- 0.1)) / (- 0.3 - (- 0.1)) = - 5 * x - 1 / 2"
    by (simp add: field_simps)
  show ?thesis
    unfolding nightFactor_def smoothstep_def clamp_glsl_def e ..
qed

lemma hermite_strict_mono:
  fixes a b :: real
  assumes "0 \<le> a" "a < b" "b \<le> 1"
  shows "a * a * (3 - 2 * a) < b * b * (3 - 2 * b)"
proof -
  have p1: "0 \<le> a * (3 - 2 * a - b)"
    using assms by (intro mult_nonneg_nonneg) simp_all
  have p2: "0 < b * (3 - 2 * b - a)"
    using assms by (intro mult_pos_pos) simp_all
  have "b * b * (3 - 2 * b) - a * a * (3 - 2 * a) =
      (b - a) * (a * (3 - 2 * a - b) + b * (3 - 2 * b - a))"
    by (simp add: algebra_simps)
  moreover have "0 < (b - a) * (a * (3 - 2 * a - b) + b * (3 - 2 * b - a))"
  proof (rule mult_pos_pos)
    show "0 < b - a"
      using assms by simp
    show "0 < a * (3 - 2 * a - b) + b * (3 - 2 * b - a)"
      using p1 p2 by (rule add_nonneg_pos)
  qed
  ultimately show ?thesis by simp
qed

lemma nightFactor_lit:
  assumes "- 0.1 \<le> x"
  shows "nightFactor x = 0"
proof -
  have "- 5 * x - 1 / 2 \<le> 0"
    using assms by simp
  then have "min (max (- 5 * x - 1 / 2) 0) 1 = 0"
    by simp
  then show ?thesis
    unfolding nightFactor_ramp Let_def by simp
qed

lemma nightFactor_dark:
  assumes "x \<le> - 0.3"
  shows "nightFactor x = 1"
proof -
  have "1 \<le> - 5 * x - 1 / 2"
    using assms by simp
  then have "min (max (- 5 * x - 1 / 2) 0) 1 = 1"
    by simp
  then show ?thesis
    unfolding nightFactor_ramp Let_def by simp
qed

lemma nightFactor_band:
  assumes "- 0.3 < x" "x < - 0.1"
  shows "nightFactor x = (- 5 * x - 1 / 2) * (- 5 * x - 1 / 2) * (3 - 2 * (- 5 * x - 1 / 2))"
proof -
  have "0 \<le> - 5 * x - 1 / 2" "- 5 * x - 1 / 2 \<le> 1"
    using assms by simp_all
  then have "min (max (- 5 * x - 1 / 2) 0) 1 = - 5 * x - 1 / 2"
    by simp
  then show ?thesis
    unfolding nightFactor_ramp Let_def by simp
qed

text \<open>
  C6. \<open>nightFactor = smoothstep(-0.1, -0.3, sunFacing)\<close> is 0 where \<open>-0.1 \<le> sunFacing\<close>,
  1 where \<open>sunFacing \<le> -0.3\<close>, and strictly monotone in between: it grows strictly from
  0 towards 1 as \<open>sunFacing\<close> falls from -0.1 to -0.3, and stays strictly between 0 and 1
  there. The shader applies it to \<open>sunFacing = dot(vNormalW, sunDirection)\<close>.
\<close>

theorem nightFactor_terminator:
  "(- 0.1 \<le> x \<longrightarrow> nightFactor x = 0)
   \<and> (x \<le> - 0.3 \<longrightarrow> nightFactor x = 1)
   \<and> (- 0.3 < x \<and> x < y \<and> y < - 0.1 \<longrightarrow>
        nightFactor y < nightFactor x \<and> 0 < nightFactor y \<and> nightFactor x < 1)
   \<and> alpha (nightLights_fragment (r, g, b, a) sunDirection vNormalW) =
        nightFactor (dot vNormalW sunDirection) * r"
proof -
  have m: "- 0.3 < x \<and> x < y \<and> y < - 0.1 \<longrightarrow>
        nightFactor y < nightFactor x \<and> 0 < nightFactor y \<and> nightFactor x < 1"
  proof
    assume h: "- 0.3 < x \<and> x < y \<and> y < - 0.1"
    let ?t = "\<lambda>z :: real. - 5 * z - 1 / 2"
    have tx: "?t x < 1" and ty: "0 < ?t y" and tyx: "?t y < ?t x"
      using h by simp_all
    have bx: "nightFactor x = ?t x * ?t x * (3 - 2 * ?t x)"
      using h by (intro nightFactor_band) simp_all
    have "nightFactor y = ?t y * ?t y * (3 - 2 * ?t y)"
      using h by (intro nightFactor_band) simp_all
    note by' = this
    have lt: "?t y * ?t y * (3 - 2 * ?t y) < ?t x * ?t x * (3 - 2 * ?t x)"
      using ty tyx tx by (intro hermite_strict_mono) simp_all
    have pos: "0 * 0 * (3 - 2 * 0) < ?t y * ?t y * (3 - 2 * ?t y)"
      using ty tyx tx by (intro hermite_strict_mono) simp_all
    have one: "?t x * ?t x * (3 - 2 * ?t x) < 1 * 1 * (3 - 2 * 1)"
      using ty tyx tx by (intro hermite_strict_mono) simp_all
    show "nightFactor y < nightFactor x \<and> 0 < nightFactor y \<and> nightFactor x < 1"
      unfolding bx by' using lt pos one by simp
  qed
  have al: "alpha (nightLights_fragment (r, g, b, a) sunDirection vNormalW) =
        nightFactor (dot vNormalW sunDirection) * r"
    by (simp add: nightLights_fragment_def alpha_def Let_def)
  from m al show ?thesis
    by (simp add: nightFactor_lit nightFactor_dark)
qed

theorem nightFactor_terminator_witness:
  "nightFactor 0 = 0 \<and> nightFactor (- 1) = 1
   \<and> nightFactor (- 0.15) < nightFactor (- 0.25)"
proof -
  have a: "nightFactor 0 = 0"
    using nightFactor_terminator [of 0] by simp
  have b: "nightFactor (- 1) = 1"
    using nightFactor_terminator [of "- 1"] by simp
  have c: "nightFactor (- 0.15) < nightFactor (- 0.25)"
    using nightFactor_terminator [of "- 0.25" "- 0.15"] by simp
  from a b c show ?thesis by blast
qed

text \<open>
  C7. The alpha of the atmosphere fragment is \<open>pow(f, 3.5) * 0.65\<close> with
  \<open>f = 1 - dot(vNormal, vViewDir)\<close>, and it does not decrease as \<open>f\<close> grows within
  \<open>[0, 1]\<close>.
\<close>

theorem atmosphere_alpha_monotone:
  "alpha (atmosphere_fragment n v) = pow_glsl (1 - dot n v) 3.5 * 0.65
   \<and> (0 \<le> 1 - dot n v \<and> 1 - dot n v \<le> 1 - dot n' v' \<and> 1 - dot n' v' \<le> 1 \<longrightarrow>
        alpha (atmosphere_fragment n v) \<le> alpha (atmosphere_fragment n' v'))"
proof -
  have a: "\<And>n v. alpha (atmosphere_fragment n v) = pow_glsl (1 - dot n v) 3.5 * 0.65"
    by (simp add: atmosphere_fragment_def alpha_def Let_def)
  have m: "0 \<le> 1 - dot n v \<and> 1 - dot n v \<le> 1 - dot n' v' \<and> 1 - dot n' v' \<le> 1 \<longrightarrow>
        alpha (atmosphere_fragment n v) \<le> alpha (atmosphere_fragment n' v')"
  proof
    assume h: "0 \<le> 1 - dot n v \<and> 1 - dot n v \<le> 1 - dot n' v' \<and> 1 - dot n' v' \<le> 1"
    then have "(1 - dot n v) powr 3.5 \<le> (1 - dot n' v') powr 3.5"
      by (intro powr_mono2) simp_all
    then show "alpha (atmosphere_fragment n v) \<le> alpha (atmosphere_fragment n' v')"
      by (simp add: a pow_glsl_def)
  qed
  from a [of n v] m show ?thesis by blast
qed

theorem atmosphere_alpha_monotone_witness:
  "alpha (atmosphere_fragment (0, 0, 1) (0, 0, 1)) \<le> alpha (atmosphere_fragment (0, 0, 1) (1, 0, 0))
   \<and> alpha (atmosphere_fragment (0, 0, 1) (0, 0, 1)) = 0
   \<and> alpha (atmosphere_fragment (0, 0, 1) (1, 0, 0)) = 0.65"
proof -
  note t = atmosphere_alpha_monotone [of "(0, 0, 1)" "(0, 0, 1)" "(0, 0, 1)" "(1, 0, 0)"]
  have a: "alpha (atmosphere_fragment (0, 0, 1) (0, 0, 1)) \<le> alpha (atmosphere_fragment (0, 0, 1) (1, 0, 0))"
    using t by (simp add: dot_def)
  have b: "alpha (atmosphere_fragment (0, 0, 1) (0, 0, 1)) = 0"
    using t by (simp add: dot_def pow_glsl_def)
  have c: "alpha (atmosphere_fragment (0, 0, 1) (1, 0, 0)) = 0.65"
    using atmosphere_alpha_monotone [of "(0, 0, 1)" "(1, 0, 0)" "(0, 0, 1)" "(1, 0, 0)"]
    by (simp add: dot_def pow_glsl_def)
  from a b c show ?thesis by blast
qed

section \<open>Properties of the float32 store\<close>

lemma round_even_cases: "round_even t = \<lfloor>t\<rfloor> \<or> round_even t = \<lfloor>t\<rfloor> + 1"
  by (simp add: round_even_def Let_def)

lemma round_even_error: "\<bar>real_of_int (round_even t) - t\<bar> \<le> 1 / 2"
proof -
  have "real_of_int \<lfloor>t\<rfloor> \<le> t" "t < real_of_int \<lfloor>t\<rfloor> + 1"
    by linarith+
  then show ?thesis
    by (auto simp: round_even_def Let_def)
qed

lemma round_even_ge: "real_of_int n \<le> t \<Longrightarrow> n \<le> round_even t"
proof -
  assume "real_of_int n \<le> t"
  then have "n \<le> \<lfloor>t\<rfloor>"
    by (simp add: le_floor_iff)
  then show ?thesis
    using round_even_cases [of t] by linarith
qed

lemma round_even_le: "t \<le> real_of_int n \<Longrightarrow> round_even t \<le> n"
proof -
  assume t: "t \<le> real_of_int n"
  show ?thesis
  proof (cases "t = real_of_int \<lfloor>t\<rfloor>")
    case True
    then have "round_even t = \<lfloor>t\<rfloor>"
      by (simp add: round_even_def Let_def)
    moreover have "\<lfloor>t\<rfloor> \<le> n"
      using t by (simp add: floor_le_iff)
    ultimately show ?thesis by simp
  next
    case False
    have "real_of_int \<lfloor>t\<rfloor> \<le> t"
      by linarith
    with False have "real_of_int \<lfloor>t\<rfloor> < real_of_int n"
      using t by linarith
    then have "\<lfloor>t\<rfloor> + 1 \<le> n"
      by linarith
    then show ?thesis
      using round_even_cases [of t] by linarith
  qed
qed

lemma round_even_above:
  assumes "real_of_int n + 1 / 2 < t"
  shows "n + 1 \<le> round_even t"
proof (cases "n + 1 \<le> \<lfloor>t\<rfloor>")
  case True
  then show ?thesis
    using round_even_cases [of t] by linarith
next
  case False
  have "n \<le> \<lfloor>t\<rfloor>"
    using assms by (simp add: le_floor_iff)
  with False have f: "\<lfloor>t\<rfloor> = n"
    by linarith
  then show ?thesis
    using assms by (simp add: round_even_def Let_def)
qed

lemma round_even_near:
  assumes "real_of_int n - 1 / 2 < t" "t < real_of_int n + 1 / 2"
  shows "round_even t = n"
proof (cases "real_of_int n \<le> t")
  case True
  then have "\<lfloor>t\<rfloor> = n"
    using assms by linarith
  then show ?thesis
    using assms by (simp add: round_even_def Let_def)
next
  case False
  then have "\<lfloor>t\<rfloor> = n - 1"
    using assms by linarith
  then show ?thesis
    using assms by (simp add: round_even_def Let_def)
qed

lemma fround_binade:
  assumes "2 powr real_of_int e \<le> \<bar>x\<bar>" "\<bar>x\<bar> < 2 powr (real_of_int e + 1)" "- 126 \<le> e"
  shows "fround x =
     real_of_int (round_even (x / 2 powr (real_of_int e - 23))) * 2 powr (real_of_int e - 23)"
proof -
  have pos: "0 < \<bar>x\<bar>"
    using assms(1) by (smt (verit) powr_gt_zero)
  then have "\<lfloor>log 2 \<bar>x\<bar>\<rfloor> = e"
    using assms by (simp add: floor_log_eq_powr_iff)
  moreover have "x \<noteq> 0"
    using pos by simp
  ultimately show ?thesis
    using assms(3) by (simp add: fround_def Let_def max_def)
qed

lemma fround_error:
  assumes "\<bar>x\<bar> < 2 powr (real_of_int k + 1)" "- 126 \<le> k"
  shows "\<bar>fround x - x\<bar> \<le> 2 powr (real_of_int k - 24)"
proof (cases "x = 0")
  case True
  then show ?thesis by (simp add: fround_def)
next
  case False
  define e where "e = max \<lfloor>log 2 \<bar>x\<bar>\<rfloor> (- 126)"
  define ulp :: real where "ulp = 2 powr (real_of_int e - 23)"
  have ulp_pos: "0 < ulp"
    by (simp add: ulp_def)
  have "log 2 \<bar>x\<bar> < real_of_int k + 1"
    using assms(1) False by (simp add: log_less_iff)
  then have "\<lfloor>log 2 \<bar>x\<bar>\<rfloor> \<le> k"
    by linarith
  then have "e \<le> k"
    using assms(2) by (simp add: e_def)
  then have ulp_le: "ulp \<le> 2 powr (real_of_int k - 23)"
    by (simp add: ulp_def)
  have fr: "fround x = real_of_int (round_even (x / ulp)) * ulp"
    using False by (simp add: fround_def Let_def e_def ulp_def)
  have "fround x - x = (real_of_int (round_even (x / ulp)) - x / ulp) * ulp"
    using ulp_pos by (simp add: fr algebra_simps)
  then have "\<bar>fround x - x\<bar> = \<bar>real_of_int (round_even (x / ulp)) - x / ulp\<bar> * ulp"
    using ulp_pos by (simp add: abs_mult)
  also have "\<dots> \<le> 1 / 2 * ulp"
    using ulp_pos round_even_error [of "x / ulp"] by (intro mult_right_mono) simp_all
  also have "\<dots> \<le> 1 / 2 * 2 powr (real_of_int k - 23)"
    using ulp_le by simp
  also have "\<dots> = 2 powr (real_of_int k - 24)"
  proof -
    have "2 powr (real_of_int k - 23) = 2 powr (real_of_int k - 24 + 1)"
      by simp
    also have "\<dots> = 2 powr (real_of_int k - 24) * 2"
      by (simp only: powr_add) simp
    finally show ?thesis by simp
  qed
  finally show ?thesis .
qed

lemma fround_binade_pow:
  assumes "2 ^ a / 2 ^ b \<le> \<bar>x\<bar>" "\<bar>x\<bar> < 2 * 2 ^ a / 2 ^ b" "int b \<le> int a + 126"
  shows "fround x = real_of_int (round_even (x * 2 ^ (b + 23) / 2 ^ a)) * 2 ^ a / 2 ^ (b + 23)"
proof -
  let ?e = "int a - int b"
  have p: "2 powr real_of_int (int a - int b) = 2 ^ a / (2 ^ b :: real)"
    by (simp add: powr_diff powr_realpow)
  have p1: "2 powr (real_of_int (int a - int b) + 1) = 2 * 2 ^ a / (2 ^ b :: real)"
    unfolding powr_add p by simp
  have u: "2 powr (real_of_int (int a - int b) - 23) = 2 ^ a / (2 ^ (b + 23) :: real)"
  proof -
    have "real_of_int (int a - int b) - 23 = real a - real (b + 23)"
      by simp
    then show ?thesis
      by (simp only: powr_diff powr_realpow zero_less_numeral)
  qed
  have a1: "2 powr real_of_int ?e \<le> \<bar>x\<bar>"
    unfolding p by (rule assms(1))
  have a2: "\<bar>x\<bar> < 2 powr (real_of_int ?e + 1)"
    unfolding p1 by (rule assms(2))
  have a3: "- 126 \<le> ?e"
    using assms(3) by simp
  have "fround x = real_of_int (round_even (x / 2 powr (real_of_int ?e - 23)))
      * 2 powr (real_of_int ?e - 23)"
    by (rule fround_binade [OF a1 a2 a3])
  also have "\<dots> = real_of_int (round_even (x / (2 ^ a / 2 ^ (b + 23)))) * (2 ^ a / 2 ^ (b + 23))"
    by (simp only: u)
  also have "x / (2 ^ a / (2 ^ (b + 23) :: real)) = x * 2 ^ (b + 23) / 2 ^ a"
    by simp
  finally show ?thesis
    by simp
qed

lemma fround_at:
  assumes "2 ^ a / 2 ^ b \<le> \<bar>x\<bar>" "\<bar>x\<bar> < 2 * 2 ^ a / 2 ^ b" "int b \<le> int a + 126"
    and "real_of_int n - 1 / 2 < x * 2 ^ (b + 23) / 2 ^ a"
      "x * 2 ^ (b + 23) / 2 ^ a < real_of_int n + 1 / 2"
  shows "fround x = real_of_int n * 2 ^ a / 2 ^ (b + 23)"
proof -
  have "round_even (x * 2 ^ (b + 23) / 2 ^ a) = n"
    using assms(4,5) by (rule round_even_near)
  then show ?thesis
    using fround_binade_pow [OF assms(1-3)] by simp
qed

lemma fround_085: "fround 0.85 = 14260634 / 16777216"
proof -
  have "fround 0.85 = real_of_int 14260634 * 2 ^ 0 / 2 ^ (1 + 23)"
    by (rule fround_at) simp_all
  then show ?thesis by simp
qed

lemma fround_07: "fround 0.7 = 11744051 / 16777216"
proof -
  have "fround 0.7 = real_of_int 11744051 * 2 ^ 0 / 2 ^ (1 + 23)"
    by (rule fround_at) simp_all
  then show ?thesis by simp
qed

lemma fround_08: "fround 0.8 = 13421773 / 16777216"
proof -
  have "fround 0.8 = real_of_int 13421773 * 2 ^ 0 / 2 ^ (1 + 23)"
    by (rule fround_at) simp_all
  then show ?thesis by simp
qed

lemma fround_1: "fround 1 = 1"
proof -
  have "fround 1 = real_of_int 8388608 * 2 ^ 0 / 2 ^ (0 + 23)"
    by (rule fround_at) simp_all
  then show ?thesis by simp
qed

lemma fround_coord_x: "fround (3000 / 17) = 11565176 / 65536"
proof -
  have "fround (3000 / 17) = real_of_int 11565176 * 2 ^ 7 / 2 ^ (0 + 23)"
    by (rule fround_at) simp_all
  then show ?thesis by simp
qed

lemma fround_coord_z: "fround (1600 / 17) = 12336188 / 131072"
proof -
  have "fround (1600 / 17) = real_of_int 12336188 * 2 ^ 6 / 2 ^ (0 + 23)"
    by (rule fround_at) simp_all
  then show ?thesis by simp
qed

lemma fround_size_bounds:
  assumes "0.3 \<le> x" "x \<le> 1"
  shows "0.3 \<le> fround x \<and> fround x \<le> 1"
proof -
  consider "x < 1 / 2" | "1 / 2 \<le> x" "x < 1" | "x = 1"
    using assms by linarith
  then show ?thesis
  proof cases
    case 1
    have f: "fround x = real_of_int (round_even (x * 2 ^ (2 + 23) / 2 ^ 0)) * 2 ^ 0 / 2 ^ (2 + 23)"
      using assms 1 by (intro fround_binade_pow) simp_all
    have "10066329 + 1 \<le> round_even (x * 2 ^ (2 + 23) / 2 ^ 0)"
      using assms by (intro round_even_above) simp
    then have lo: "10066330 \<le> real_of_int (round_even (x * 2 ^ (2 + 23) / 2 ^ 0))"
      by linarith
    have "round_even (x * 2 ^ (2 + 23) / 2 ^ 0) \<le> 16777216"
      using 1 by (intro round_even_le) simp
    then have hi: "real_of_int (round_even (x * 2 ^ (2 + 23) / 2 ^ 0)) \<le> 16777216"
      by linarith
    show ?thesis
      unfolding f using lo hi by simp
  next
    case 2
    have f: "fround x = real_of_int (round_even (x * 2 ^ (1 + 23) / 2 ^ 0)) * 2 ^ 0 / 2 ^ (1 + 23)"
      using 2 by (intro fround_binade_pow) simp_all
    have "8388608 \<le> round_even (x * 2 ^ (1 + 23) / 2 ^ 0)"
      using 2 by (intro round_even_ge) simp
    then have lo: "8388608 \<le> real_of_int (round_even (x * 2 ^ (1 + 23) / 2 ^ 0))"
      by linarith
    have "round_even (x * 2 ^ (1 + 23) / 2 ^ 0) \<le> 16777216"
      using 2 by (intro round_even_le) simp
    then have hi: "real_of_int (round_even (x * 2 ^ (1 + 23) / 2 ^ 0)) \<le> 16777216"
      by linarith
    show ?thesis
      unfolding f using lo hi by simp
  next
    case 3
    then show ?thesis
      by (simp add: fround_1)
  qed
qed

lemma fround_coordinate_error:
  assumes "\<bar>x\<bar> \<le> 300"
  shows "\<bar>fround x - x\<bar> \<le> 1 / 65536"
proof -
  have "\<bar>x\<bar> < 2 powr (real_of_int 8 + 1)"
    using assms by simp
  then have "\<bar>fround x - x\<bar> \<le> 2 powr (real_of_int 8 - 24)"
    by (rule fround_error) simp
  also have "\<dots> = 1 / 65536"
    by (simp add: powr_neg_numeral)
  finally show ?thesis .
qed

lemma square_perturbed:
  fixes x x' r d :: real
  assumes "\<bar>x\<bar> \<le> r" "\<bar>x' - x\<bar> \<le> d"
  shows "x * x - 2 * r * d \<le> x' * x' \<and> x' * x' \<le> x * x + 2 * r * d + d * d"
proof -
  define e where "e = x' - x"
  have r: "0 \<le> r" and d: "0 \<le> d"
    using assms by linarith+
  have "\<bar>x * e\<bar> \<le> r * d"
    unfolding abs_mult e_def using assms r d by (intro mult_mono) simp_all
  then have xe: "- (r * d) \<le> x * e" "x * e \<le> r * d"
    by linarith+
  have "\<bar>e\<bar> * \<bar>e\<bar> \<le> d * d"
    unfolding e_def using assms d by (intro mult_mono) simp_all
  then have ee: "0 \<le> e * e" "e * e \<le> d * d"
    by simp_all
  have "x' * x' = x * x + 2 * (x * e) + e * e"
    by (simp add: e_def algebra_simps)
  then show ?thesis
    using xe ee by linarith
qed

section \<open>Properties of the starfield\<close>

lemma star_body_calls: "calls (star_body rng i b) = calls b + 5"
  by (simp add: star_body_def Let_def)

lemma star_body_sized: "buffers_sized b \<Longrightarrow> buffers_sized (star_body rng i b)"
  by (simp add: buffers_sized_def star_body_def Let_def)

lemma star_body_position_other:
  "j \<noteq> i \<Longrightarrow> star_position (star_body rng i b) j = star_position b j"
  by (simp add: star_position_def star_body_def Let_def)

lemma star_body_size_other:
  "j \<noteq> i \<Longrightarrow> star_size (star_body rng i b) j = star_size b j"
  by (simp add: star_size_def star_body_def Let_def)

lemma star_body_color_other:
  "j \<noteq> i \<Longrightarrow> star_color (star_body rng i b) j = star_color b j"
  by (simp add: star_color_def star_body_def Let_def)

lemma star_body_written_other:
  "j \<noteq> i \<Longrightarrow> star_written rng (star_body rng i b) j = star_written rng b j"
  by (simp add: star_written_def star_body_position_other star_body_size_other
      star_body_color_other)

lemma star_body_position_self:
  assumes "buffers_sized b" "i < starCount" "calls b = 5 * i"
  shows "star_position (star_body rng i b) i = fround_vec (star_point rng i)"
proof -
  have "i * 3 + 2 < length (positions b)"
    using assms by (simp add: buffers_sized_def)
  then show ?thesis
    using assms(3)
    by (simp add: star_position_def star_body_def star_point_def fround_vec_def Let_def)
qed

lemma star_body_size_self:
  assumes "buffers_sized b" "i < starCount" "calls b = 5 * i"
  shows "star_size (star_body rng i b) i = fround (0.3 + rng (5 * i + 3) * 0.7)"
  using assms by (simp add: buffers_sized_def star_size_def star_body_def Let_def)

lemma star_body_color_self:
  assumes "buffers_sized b" "i < starCount" "calls b = 5 * i"
  shows "star_color (star_body rng i b) i = star_tint (rng (5 * i + 4))"
proof -
  have "i * 3 + 2 < length (colors b)"
    using assms by (simp add: buffers_sized_def)
  then show ?thesis
    using assms(3) by (simp add: star_color_def star_body_def star_tint_def Let_def)
qed

lemma star_body_written_self:
  assumes "buffers_sized b" "i < starCount" "calls b = 5 * i"
  shows "star_written rng (star_body rng i b) i"
  unfolding star_written_def
  using star_body_position_self [OF assms] star_body_size_self [OF assms]
    star_body_color_self [OF assms]
  by blast

lemma star_loop_sized: "buffers_sized b \<Longrightarrow> buffers_sized (star_loop rng i b)"
proof (induction rng i b rule: star_loop.induct)
  case (1 rng i b)
  show ?case
  proof (cases "i < starCount")
    case True
    have "buffers_sized (star_loop rng (i + 1) (star_body rng i b))"
      using "1.IH" [OF True] "1.prems" by (simp add: star_body_sized)
    then show ?thesis
      using True by (subst star_loop.simps) simp
  next
    case False
    then show ?thesis
      using "1.prems" by (subst star_loop.simps) simp
  qed
qed

lemma star_loop_written:
  "buffers_sized b \<Longrightarrow> calls b = 5 * i \<Longrightarrow> (\<And>j. j < i \<Longrightarrow> star_written rng b j) \<Longrightarrow>
     j < starCount \<Longrightarrow> star_written rng (star_loop rng i b) j"
proof (induction rng i b arbitrary: j rule: star_loop.induct)
  case (1 rng i b)
  note b = "1.prems"(1) and c = "1.prems"(2) and earlier = "1.prems"(3) and j = "1.prems"(4)
  show ?case
  proof (cases "i < starCount")
    case True
    have sized: "buffers_sized (star_body rng i b)"
      using b by (rule star_body_sized)
    have count: "calls (star_body rng i b) = 5 * (i + 1)"
      using c by (simp add: star_body_calls)
    have below: "star_written rng (star_body rng i b) k" if "k < i + 1" for k
    proof (cases "k = i")
      case True
      have "star_written rng (star_body rng i b) i"
        using b \<open>i < starCount\<close> c by (rule star_body_written_self)
      then show ?thesis
        using True by simp
    next
      case False
      with that have "k < i" by simp
      then have "star_written rng b k" by (rule earlier)
      then show ?thesis
        using False by (simp add: star_body_written_other)
    qed
    have "star_written rng (star_loop rng (i + 1) (star_body rng i b)) j"
      using "1.IH" [OF True sized count below j] by simp
    then show ?thesis
      using True by (subst star_loop.simps) simp
  next
    case False
    then have "j < i"
      using j by simp
    then have "star_written rng b j" by (rule earlier)
    then show ?thesis
      using False by (subst star_loop.simps) simp
  qed
qed

lemma createStarfield_sized: "buffers_sized (createStarfield rng)"
  unfolding createStarfield_def
  by (rule star_loop_sized) (simp add: buffers_sized_def)

lemma createStarfield_written:
  assumes "j < starCount"
  shows "star_written rng (createStarfield rng) j"
  unfolding createStarfield_def
proof (rule star_loop_written)
  show "buffers_sized \<lparr>positions = replicate (starCount * 3) 0, sizes = replicate starCount 0,
      colors = replicate (starCount * 3) 0, calls = 0\<rparr>"
    by (simp add: buffers_sized_def)
  show "j < starCount"
    by (rule assms)
qed simp_all

lemma sphere_squares:
  fixes r x y z w :: real
  shows "(r * x * y) * (r * x * y) + (r * x * w) * (r * x * w) + (r * z) * (r * z) =
      r\<^sup>2 * (x\<^sup>2 * (y\<^sup>2 + w\<^sup>2) + z\<^sup>2)"
  by (simp add: power2_eq_square algebra_simps)

lemma sphere_point_squares:
  fixes r a t :: real
  shows "(r * sin a * cos t) * (r * sin a * cos t) + (r * sin a * sin t) * (r * sin a * sin t)
     + (r * cos a) * (r * cos a) = r * r"
proof -
  have "(r * sin a * cos t) * (r * sin a * cos t) + (r * sin a * sin t) * (r * sin a * sin t)
        + (r * cos a) * (r * cos a) =
      r\<^sup>2 * ((sin a)\<^sup>2 * ((cos t)\<^sup>2 + (sin t)\<^sup>2) + (cos a)\<^sup>2)"
    by (rule sphere_squares)
  also have "\<dots> = r\<^sup>2"
    by simp
  finally show ?thesis
    by (simp add: power2_eq_square)
qed

lemma sphere_coordinates:
  fixes r a t :: real
  assumes "0 \<le> r"
  shows "\<bar>r * sin a * cos t\<bar> \<le> r" "\<bar>r * sin a * sin t\<bar> \<le> r" "\<bar>r * cos a\<bar> \<le> r"
proof -
  have sc: "\<bar>sin a * cos t\<bar> \<le> 1 * 1"
    unfolding abs_mult by (intro mult_mono) simp_all
  have ss: "\<bar>sin a * sin t\<bar> \<le> 1 * 1"
    unfolding abs_mult by (intro mult_mono) simp_all
  have "\<bar>r * (sin a * cos t)\<bar> \<le> r * 1"
    unfolding abs_mult using assms sc by (intro mult_mono) simp_all
  then show "\<bar>r * sin a * cos t\<bar> \<le> r"
    by (simp add: mult.assoc)
  have "\<bar>r * (sin a * sin t)\<bar> \<le> r * 1"
    unfolding abs_mult using assms ss by (intro mult_mono) simp_all
  then show "\<bar>r * sin a * sin t\<bar> \<le> r"
    by (simp add: mult.assoc)
  have "\<bar>r * cos a\<bar> \<le> r * 1"
    unfolding abs_mult using assms by (intro mult_mono) simp_all
  then show "\<bar>r * cos a\<bar> \<le> r"
    by simp
qed

lemma stored_distance:
  fixes x y z x' y' z' r :: real
  assumes r: "200 \<le> r" "r \<le> 300"
    and on: "x * x + y * y + z * z = r * r"
    and c: "\<bar>x\<bar> \<le> r" "\<bar>y\<bar> \<le> r" "\<bar>z\<bar> \<le> r"
    and e: "\<bar>x' - x\<bar> \<le> 1 / 65536" "\<bar>y' - y\<bar> \<le> 1 / 65536" "\<bar>z' - z\<bar> \<le> 1 / 65536"
  shows "199.9999 \<le> vlength (x', y', z') \<and> vlength (x', y', z') \<le> 300.0001"
proof -
  let ?d = "1 / 65536 :: real"
  let ?S = "x' * x' + y' * y' + z' * z'"
  note px = square_perturbed [OF c(1) e(1)]
    and py = square_perturbed [OF c(2) e(2)]
    and pz = square_perturbed [OF c(3) e(3)]
  have lo: "r * r - 6 * r * ?d \<le> ?S"
    using px py pz on by linarith
  have hi: "?S \<le> r * r + 6 * r * ?d + 3 * (?d * ?d)"
    using px py pz on by linarith
  have "(r - 4 * ?d)\<^sup>2 = r * r - 8 * r * ?d + 16 * (?d * ?d)"
    by (simp add: power2_eq_square algebra_simps)
  also have "\<dots> \<le> r * r - 6 * r * ?d"
    using r by simp
  finally have "(r - 4 * ?d)\<^sup>2 \<le> ?S"
    using lo by linarith
  then have "r - 4 * ?d \<le> sqrt ?S"
    by (rule real_le_rsqrt)
  then have low: "199.9999 \<le> sqrt ?S"
    using r by simp
  have "(r + 3 * ?d)\<^sup>2 = r * r + 6 * r * ?d + 9 * (?d * ?d)"
    by (simp add: power2_eq_square algebra_simps)
  then have "?S \<le> (r + 3 * ?d)\<^sup>2"
    using hi by simp
  moreover have "0 \<le> r + 3 * ?d"
    using r by simp
  ultimately have "sqrt ?S \<le> r + 3 * ?d"
    by (intro real_le_lsqrt)
  then have high: "sqrt ?S \<le> 300.0001"
    using r by simp
  from low high show ?thesis
    by (simp add: vlength_def dot_def)
qed

lemma star_point_distance:
  assumes "0 \<le> rng (5 * i)" "rng (5 * i) < 1"
  shows "200 \<le> vlength (star_point rng i) \<and> vlength (star_point rng i) < 300
     \<and> 199.9999 \<le> vlength (fround_vec (star_point rng i))
     \<and> vlength (fround_vec (star_point rng i)) \<le> 300.0001"
proof -
  define r where "r = 200 + rng (5 * i) * 100"
  define t where "t = rng (5 * i + 1) * pi * 2"
  define a where "a = arccos (2 * rng (5 * i + 2) - 1)"
  define x y z where "x = r * sin a * cos t" and "y = r * sin a * sin t" and "z = r * cos a"
  have p: "star_point rng i = (x, y, z)"
    by (simp add: star_point_def Let_def r_def t_def a_def x_def y_def z_def)
  have r: "200 \<le> r" "r < 300"
    using assms by (simp_all add: r_def)
  have on: "x * x + y * y + z * z = r * r"
    unfolding x_def y_def z_def by (rule sphere_point_squares)
  have c: "\<bar>x\<bar> \<le> r" "\<bar>y\<bar> \<le> r" "\<bar>z\<bar> \<le> r"
    unfolding x_def y_def z_def using r by (intro sphere_coordinates; simp)+
  have "vlength (x, y, z) = sqrt (r * r)"
    by (simp add: vlength_def dot_def on)
  then have v: "vlength (x, y, z) = r"
    using r by simp
  have e: "\<bar>fround x - x\<bar> \<le> 1 / 65536" "\<bar>fround y - y\<bar> \<le> 1 / 65536"
    "\<bar>fround z - z\<bar> \<le> 1 / 65536"
    using c r by (intro fround_coordinate_error; linarith)+
  have "199.9999 \<le> vlength (fround x, fround y, fround z)
      \<and> vlength (fround x, fround y, fround z) \<le> 300.0001"
    using r by (intro stored_distance [OF _ _ on c e]) simp_all
  then show ?thesis
    using r by (simp add: p v fround_vec_def)
qed

lemma star_tint_values:
  "star_tint temp = (1, 14260634 / 16777216, 11744051 / 16777216)
   \<or> star_tint temp = (11744051 / 16777216, 13421773 / 16777216, 1)
   \<or> star_tint temp = (1, 1, 1)"
  using fround_1 fround_085 fround_07 fround_08 by (simp add: star_tint_def)

text \<open>
  C4, amended. For every sequence of random values in \<open>[0, 1)\<close> the starfield has exactly
  6000 points (6000 sizes, 18000 position and 18000 colour cells). The position of every
  point is the binary32 rounding, coordinate by coordinate, of a point whose distance
  from the origin lies in \<open>[200, 300]\<close>, so that the distance of the stored position lies
  in \<open>[199.9999, 300.0001]\<close>; its size lies in \<open>[0.3, 1.0]\<close>; and its colour is one of
  \<open>(1, f 0.85, f 0.7)\<close>, \<open>(f 0.7, f 0.8, 1)\<close> and \<open>(1, 1, 1)\<close>, where \<open>f\<close> rounds to binary32:
  \<open>f 0.85 = 14260634 / 2^24\<close>, \<open>f 0.7 = 11744051 / 2^24\<close>, \<open>f 0.8 = 13421773 / 2^24\<close>.
\<close>

theorem createStarfield_float32_points:
  assumes "\<forall>k. 0 \<le> rng k \<and> rng k < 1"
  shows "point_count (createStarfield rng) = 6000
     \<and> length (positions (createStarfield rng)) = 6000 * 3
     \<and> length (sizes (createStarfield rng)) = 6000
     \<and> length (colors (createStarfield rng)) = 6000 * 3
     \<and> (\<forall>i < 6000.
          star_position (createStarfield rng) i = fround_vec (star_point rng i)
          \<and> 200 \<le> vlength (star_point rng i)
          \<and> vlength (star_point rng i) \<le> 300
          \<and> 199.9999 \<le> vlength (star_position (createStarfield rng) i)
          \<and> vlength (star_position (createStarfield rng) i) \<le> 300.0001
          \<and> 0.3 \<le> star_size (createStarfield rng) i
          \<and> star_size (createStarfield rng) i \<le> 1.0
          \<and> (star_color (createStarfield rng) i = (1, fround 0.85, fround 0.7)
             \<or> star_color (createStarfield rng) i = (fround 0.7, fround 0.8, 1)
             \<or> star_color (createStarfield rng) i = (1, 1, 1)))
     \<and> fround 0.85 = 14260634 / 16777216
     \<and> fround 0.7 = 11744051 / 16777216
     \<and> fround 0.8 = 13421773 / 16777216"
proof -
  let ?S = "createStarfield rng"
  have sized: "buffers_sized ?S"
    by (rule createStarfield_sized)
  then have n: "point_count ?S = 6000"
    and lp: "length (positions ?S) = 6000 * 3"
    and ls: "length (sizes ?S) = 6000"
    and lc: "length (colors ?S) = 6000 * 3"
    by (simp_all add: buffers_sized_def point_count_def starCount_def)
  have each: "star_position ?S i = fround_vec (star_point rng i)
          \<and> 200 \<le> vlength (star_point rng i)
          \<and> vlength (star_point rng i) \<le> 300
          \<and> 199.9999 \<le> vlength (star_position ?S i)
          \<and> vlength (star_position ?S i) \<le> 300.0001
          \<and> 0.3 \<le> star_size ?S i
          \<and> star_size ?S i \<le> 1.0
          \<and> (star_color ?S i = (1, fround 0.85, fround 0.7)
             \<or> star_color ?S i = (fround 0.7, fround 0.8, 1)
             \<or> star_color ?S i = (1, 1, 1))" if "i < 6000" for i
  proof -
    have "star_written rng ?S i"
      using that by (intro createStarfield_written) (simp add: starCount_def)
    then have pos: "star_position ?S i = fround_vec (star_point rng i)"
      and siz: "star_size ?S i = fround (0.3 + rng (5 * i + 3) * 0.7)"
      and col: "star_color ?S i = star_tint (rng (5 * i + 4))"
      by (simp_all add: star_written_def)
    have r: "0 \<le> rng (5 * i)" "rng (5 * i) < 1"
      using assms by simp_all
    note d = star_point_distance [of rng i, OF r]
    have d1: "200 \<le> vlength (star_point rng i)" "vlength (star_point rng i) \<le> 300"
      using d by simp_all
    have d2: "199.9999 \<le> vlength (star_position ?S i)"
      "vlength (star_position ?S i) \<le> 300.0001"
      unfolding pos using d by simp_all
    have u: "0 \<le> rng (5 * i + 3)" "rng (5 * i + 3) < 1"
      using assms by simp_all
    have "0.3 \<le> fround (0.3 + rng (5 * i + 3) * 0.7) \<and> fround (0.3 + rng (5 * i + 3) * 0.7) \<le> 1"
      using u by (intro fround_size_bounds) simp_all
    then have s: "0.3 \<le> star_size ?S i" "star_size ?S i \<le> 1.0"
      unfolding siz by simp_all
    have c: "star_color ?S i = (1, fround 0.85, fround 0.7)
        \<or> star_color ?S i = (fround 0.7, fround 0.8, 1)
        \<or> star_color ?S i = (1, 1, 1)"
      unfolding col by (simp add: star_tint_def fround_1)
    from pos d1 d2 s c show ?thesis
      by blast
  qed
  from n lp ls lc each fround_085 fround_07 fround_08 show ?thesis
    by blast
qed

theorem createStarfield_float32_points_witness:
  "point_count (createStarfield (\<lambda>k. 1 / 2)) = 6000
   \<and> 199.9999 \<le> vlength (star_position (createStarfield (\<lambda>k. 1 / 2)) 17)
   \<and> vlength (star_position (createStarfield (\<lambda>k. 1 / 2)) 17) \<le> 300.0001
   \<and> 0.3 \<le> star_size (createStarfield (\<lambda>k. 1 / 2)) 17
   \<and> star_size (createStarfield (\<lambda>k. 1 / 2)) 17 \<le> 1.0"
proof -
  have r: "\<forall>k :: nat. (0 :: real) \<le> 1 / 2 \<and> (1 :: real) / 2 < 1"
    by simp
  have i: "(17 :: nat) < 6000"
    by simp
  note t = createStarfield_float32_points [of "\<lambda>k. 1 / 2", OF r]
  note e = t [THEN conjunct2, THEN conjunct2, THEN conjunct2, THEN conjunct2, THEN conjunct1,
      THEN spec, THEN mp, OF i]
  from t e show ?thesis
    by blast
qed

lemma fround_values:
  "fround (17 / 20) = 7130317 / 8388608" "fround (7 / 10) = 11744051 / 16777216"
  "fround (4 / 5) = 13421773 / 16777216"
  using fround_085 fround_07 fround_08 by simp_all

lemma warm_draws_unit: "0 \<le> warm_draws k \<and> warm_draws k < 1"
  by (simp add: warm_draws_def)

lemma warm_draws_point: "star_point warm_draws 0 = (3000 / 17, 0, 1600 / 17)"
proof -
  have c: "cos (arccos (8 / 17 :: real)) = 8 / 17"
    by (rule cos_arccos) simp_all
  have "sin (arccos (8 / 17 :: real)) = sqrt (1 - (8 / 17)\<^sup>2)"
    by (rule sin_arccos) simp_all
  also have "1 - (8 / 17 :: real)\<^sup>2 = (15 / 17)\<^sup>2"
    by (simp add: power2_eq_square)
  also have "sqrt ((15 / 17 :: real)\<^sup>2) = 15 / 17"
    by simp
  finally have s: "sin (arccos (8 / 17 :: real)) = 15 / 17" .
  have a: "2 * (25 / 34 :: real) - 1 = 8 / 17"
    by simp
  show ?thesis
    by (simp add: star_point_def warm_draws_def Let_def a c s)
qed

text \<open>
  C4 as stated fails on the cells of the typed arrays. With the draws 0, 0, 25/34, 0, 0
  for the first star, the colour stored is \<open>(1, f 0.85, f 0.7)\<close>, none of the three exact
  triples, and the point \<open>(3000/17, 0, 1600/17)\<close>, at distance 200, is stored as
  \<open>(11565176 / 2^16, 0, 12336188 / 2^17)\<close>, at a distance below 200.
\<close>

theorem createStarfield_float32_counterexample:
  "star_color (createStarfield warm_draws) 0 \<noteq> (1.0, 0.85, 0.7)
   \<and> star_color (createStarfield warm_draws) 0 \<noteq> (0.7, 0.8, 1.0)
   \<and> star_color (createStarfield warm_draws) 0 \<noteq> (1.0, 1.0, 1.0)
   \<and> vlength (star_position (createStarfield warm_draws) 0) < 200"
proof -
  have "star_written warm_draws (createStarfield warm_draws) 0"
    by (intro createStarfield_written) (simp add: starCount_def)
  then have pos: "star_position (createStarfield warm_draws) 0 =
      fround_vec (star_point warm_draws 0)"
    and col: "star_color (createStarfield warm_draws) 0 = star_tint (warm_draws 4)"
    by (simp_all add: star_written_def)
  have c: "star_color (createStarfield warm_draws) 0 =
      (1, 14260634 / 16777216, 11744051 / 16777216)"
    unfolding col by (simp add: star_tint_def warm_draws_def fround_1 fround_values)
  have f0: "fround 0 = 0"
    by (simp add: fround_def)
  have p: "star_position (createStarfield warm_draws) 0 =
      (11565176 / 65536, 0, 12336188 / 131072)"
    unfolding pos warm_draws_point
    by (simp add: fround_vec_def fround_coord_x fround_coord_z f0)
  have "vlength (11565176 / 65536, 0, 12336188 / 131072) < 200"
    unfolding vlength_def dot_def by (intro real_less_lsqrt) simp_all
  then have d: "vlength (star_position (createStarfield warm_draws) 0) < 200"
    by (simp only: p)
  from c d show ?thesis
    by simp
qed

end
